theory Spec2Isabelle
  imports Complex_Main "HOL-Library.Sublist"
begin

section \<open>Data model of stock\_crypto\_tui.py\<close>

text \<open>
  Prices and timestamps are finite numbers, modelled as reals; the rounding of
  IEEE doubles to 53 bits is not part of the model. Two floating-point effects
  are: division by zero, where numpy's float64 division (the equity path, where
  the anchors come out of a pandas column) yields inf or NaN without raising
  whereas Python's own float division (the crypto path, where the anchors come
  out of decoded JSON) raises ZeroDivisionError; and, on the equity path,
  overflow of a float64 result to inf. A pandas column can also hold NaN; such
  a close is not a number of the model, and no statement below says that a
  change computed from a nonzero anchor is finite.
\<close>

datatype error =
  IndexError | KeyError | TypeError | ZeroDivisionError | ValueError | ProviderError

text \<open>A Python value held in a snapshot: a finite number, a numpy inf/NaN, or None.\<close>

datatype pyval = Num real | NonFinite | PyNone

text \<open>
  One row of the yfinance history frame: the index entry (its instant in seconds,
  its calendar year and its weekday, Monday = 0) and the Close column.
\<close>

record row =
  ts :: real
  year :: int
  weekday :: nat
  close :: real

text \<open>
  The history frame. \<open>tz_aware\<close> records whether the DatetimeIndex carries a time
  zone: pandas raises TypeError when such an index is compared with the naive
  \<open>datetime.now() - timedelta(days=90)\<close>, which is what the try/except of
  \<open>get_friday_data\<close> catches.
\<close>

record dataframe =
  tz_aware :: bool
  rows :: "row list"

text \<open>
  The wall clock as the code reads it: \<open>datetime.now().year\<close>, the instant of
  \<open>datetime(current_year, 1, 1)\<close> and the instant of
  \<open>datetime.now() - timedelta(days=90)\<close>, both in seconds.
\<close>

record clock =
  now_year :: int
  year_start :: real
  three_months_ago :: real

record changeset =
  h24 :: pyval
  d7 :: pyval
  d30 :: pyval
  ytd :: pyval

datatype kind = Stock | Crypto

record snapshot =
  ticker :: string
  current_price :: pyval
  changes :: changeset
  friday_data :: "real list"
  kind :: kind

section \<open>Change calculator (calculate\_changes, calculate\_ytd\_change)\<close>

text \<open>pandas \<open>.iloc[i]\<close>: negative positions count from the end, out of range raises.\<close>

definition iloc :: "'a list \<Rightarrow> int \<Rightarrow> error + 'a" where
  "iloc xs i =
     (if 0 \<le> i \<and> i < int (length xs) then Inr (xs ! nat i)
      else if i < 0 \<and> - int (length xs) \<le> i then Inr (xs ! nat (int (length xs) + i))
      else Inl IndexError)"

text \<open>
  A float64 operation whose exact result is at least \<open>2^1024 - 2^970\<close> in
  magnitude (half an ulp above the largest double) rounds to inf.
\<close>

definition overflows :: "real \<Rightarrow> bool" where
  "overflows x \<longleftrightarrow> 2 ^ 1024 - 2 ^ 970 \<le> \<bar>x\<bar>"

text \<open>
  \<open>((current_price - a) / a) * 100\<close> on numpy float64. A zero divisor gives inf
  or NaN; so does an overflow in the subtraction, the division or the
  multiplication, and a non-finite intermediate result stays non-finite.
\<close>

definition np_pct :: "real \<Rightarrow> real \<Rightarrow> pyval" where
  "np_pct current a =
     (if a = 0 then NonFinite
      else if overflows (current - a) then NonFinite
      else if overflows ((current - a) / a) then NonFinite
      else if overflows (((current - a) / a) * 100) then NonFinite
      else Num (((current - a) / a) * 100))"

definition pct_at :: "real list \<Rightarrow> int \<Rightarrow> real \<Rightarrow> error + pyval" where
  "pct_at closes i current =
     (case iloc closes i of Inl e \<Rightarrow> Inl e | Inr a \<Rightarrow> Inr (np_pct current a))"

definition calculate_changes :: "dataframe \<Rightarrow> real \<Rightarrow> clock \<Rightarrow> error + changeset" where
  "calculate_changes hist_data current c =
     (let closes = map close (rows hist_data); n = length closes in
      if closes = [] then Inr \<lparr>h24 = Num 0, d7 = Num 0, d30 = Num 0, ytd = Num 0\<rparr>
      else
        case (if 2 \<le> n then pct_at closes (- 2) current else Inr (Num 0)) of
          Inl e \<Rightarrow> Inl e
        | Inr v24 \<Rightarrow>
        (case (if 7 \<le> n then pct_at closes (- 8) current else Inr (Num 0)) of
          Inl e \<Rightarrow> Inl e
        | Inr v7 \<Rightarrow>
        (case (if 30 \<le> n then pct_at closes (- 31) current else Inr (Num 0)) of
          Inl e \<Rightarrow> Inl e
        | Inr v30 \<Rightarrow>
        (let ytd_data = map close (filter (\<lambda>r. year r = now_year c) (rows hist_data)) in
         case (if ytd_data \<noteq> [] then pct_at ytd_data 0 current
               else if closes \<noteq> [] then pct_at closes 0 current
               else Inr (Num 0)) of
           Inl e \<Rightarrow> Inl e
         | Inr vy \<Rightarrow> Inr \<lparr>h24 = v24, d7 = v7, d30 = v30, ytd = vy\<rparr>))))"

text \<open>
  The crypto path works on the decoded JSON list of \<open>(timestamp_ms, price)\<close> pairs.
  The for-loop with \<open>break\<close> returns the price of the first pair at or after the
  start of the year, in list order.
\<close>

fun first_price_from :: "real \<Rightarrow> (real \<times> real) list \<Rightarrow> real option" where
  "first_price_from start [] = None"
| "first_price_from start ((t, p) # rest) =
     (if start \<le> t then Some p else first_price_from start rest)"

text \<open>
  \<open>current\<close> is the decoded \<open>coin_data[currency]\<close>: a number or null. Subtracting
  from None raises TypeError, dividing by a zero price raises ZeroDivisionError.
\<close>

definition calculate_ytd_change :: "(real \<times> real) list \<Rightarrow> real option \<Rightarrow> clock \<Rightarrow> error + real" where
  "calculate_ytd_change price_data current c =
     (if price_data = [] then Inr 0
      else case first_price_from (year_start c * 1000) price_data of
             None \<Rightarrow> Inr 0
           | Some year_start_price \<Rightarrow>
               (case current of
                  None \<Rightarrow> Inl TypeError
                | Some cur \<Rightarrow>
                    if year_start_price = 0 then Inl ZeroDivisionError
                    else Inr (((cur - year_start_price) / year_start_price) * 100)))"

section \<open>Series sampler (get\_friday\_data, get\_crypto\_friday\_data)\<close>

text \<open>pandas \<open>.tail(n)\<close>: the last \<open>n\<close> entries, all of them when there are fewer.\<close>

definition tail :: "nat \<Rightarrow> 'a list \<Rightarrow> 'a list" where
  "tail n xs = drop (length xs - n) xs"

text \<open>The rows of the last 90 days: those whose index is not before \<open>three_months_ago\<close>.\<close>

definition window_rows :: "dataframe \<Rightarrow> clock \<Rightarrow> row list" where
  "window_rows hist_data c = filter (\<lambda>r. three_months_ago c \<le> ts r) (rows hist_data)"

text \<open>
  \<open>hist_data[hist_data.index >= three_months_ago]\<close>, the first statement of the
  try block: it raises on a time-zone aware index.
\<close>

definition recent_window :: "dataframe \<Rightarrow> clock \<Rightarrow> error + row list" where
  "recent_window hist_data c =
     (if tz_aware hist_data then Inl TypeError else Inr (window_rows hist_data c))"

definition get_friday_data :: "dataframe \<Rightarrow> clock \<Rightarrow> real list" where
  "get_friday_data hist_data c =
     (if rows hist_data = [] then []
      else case recent_window hist_data c of
             Inl e \<Rightarrow> tail 12 (map close (rows hist_data))
           | Inr recent_data \<Rightarrow>
               (let fridays = filter (\<lambda>r. weekday r = 4) recent_data in
                if fridays \<noteq> [] then tail 12 (map close fridays)
                else tail 12 (map close recent_data)))"

text \<open>
  \<open>for i in range(0, len(recent_data), 7)\<close>: the loop visits every seventh index
  and appends only while fewer than 12 prices have been collected.
\<close>

function stride_loop :: "(real \<times> real) list \<Rightarrow> nat \<Rightarrow> real list \<Rightarrow> real list" where
  "stride_loop recent_data i acc =
     (if i < length recent_data
      then stride_loop recent_data (i + 7)
             (if length acc < 12 then acc @ [snd (recent_data ! i)] else acc)
      else acc)"
  by pat_completeness auto
termination
  by (relation "measure (\<lambda>(recent_data, i, acc). length recent_data - i)") auto

declare stride_loop.simps [simp del]

definition crypto_window :: "(real \<times> real) list \<Rightarrow> clock \<Rightarrow> (real \<times> real) list" where
  "crypto_window price_data c =
     filter (\<lambda>(t, p). three_months_ago c * 1000 \<le> t) price_data"

definition get_crypto_friday_data :: "(real \<times> real) list \<Rightarrow> clock \<Rightarrow> real list" where
  "get_crypto_friday_data price_data c =
     (if price_data = [] then []
      else stride_loop (crypto_window price_data c) 0 [])"

section \<open>Fetching and normalising one ticker (get\_stock\_data, get\_crypto\_data)\<close>

text \<open>
  \<open>str.upper()\<close> and \<open>str.lower()\<close> on ASCII letters; other characters are left
  as they are (Python's case mapping of non-ASCII code points is not modelled).
\<close>

definition upper_char :: "char \<Rightarrow> char" where
  "upper_char ch =
     (let n = (of_char ch :: nat) in if 97 \<le> n \<and> n \<le> 122 then char_of (n - 32) else ch)"

definition lower_char :: "char \<Rightarrow> char" where
  "lower_char ch =
     (let n = (of_char ch :: nat) in if 65 \<le> n \<and> n \<le> 90 then char_of (n + 32) else ch)"

definition upper :: "string \<Rightarrow> string" where
  "upper s = map upper_char s"

definition lower :: "string \<Rightarrow> string" where
  "lower s = map lower_char s"

text \<open>What the code prints on the console, one constructor per message.\<close>

datatype msg =
    NoHistory string
  | InvalidPrice string
  | StockError string error
  | CryptoError string error
  | FetchFailed string
  | NoDataAny

text \<open>
  What yfinance hands back for a ticker: the \<open>info\<close> dictionary (a key is absent,
  present with None, or present with a number) and the one-year history frame.
\<close>

record stock_resp =
  info :: "string \<Rightarrow> real option option"
  history :: dataframe

text \<open>
  The external world of one pass: yfinance per ticker, the two CoinGecko
  endpoints per coin id (decoded JSON: an object is a partial map, a number or
  null is a \<open>real option\<close>), and \<open>config['currency']['default']\<close>. A provider
  call that raises is an \<open>Inl\<close>.
\<close>

record world =
  yf :: "string \<Rightarrow> error + stock_resp"
  cg_price :: "string \<Rightarrow> error + (string \<rightharpoonup> (string \<rightharpoonup> real option))"
  cg_chart :: "string \<Rightarrow> error + (string \<rightharpoonup> (real \<times> real) list)"
  currency_default :: string

text \<open>
  The chain of price sources of \<open>get_stock_data\<close>; the last one reads the final
  Close. Every source yields a number, so the \<open>current_price is None\<close> test of
  the code can never fire and only \<open>current_price <= 0\<close> remains below.
\<close>

definition resolve_price :: "stock_resp \<Rightarrow> error + real" where
  "resolve_price r =
     (case info r ''currentPrice'' of
        Some (Some p) \<Rightarrow> Inr p
      | _ \<Rightarrow>
     (case info r ''regularMarketPrice'' of
        Some (Some p) \<Rightarrow> Inr p
      | _ \<Rightarrow>
     (case info r ''previousClose'' of
        Some (Some p) \<Rightarrow> Inr p
      | _ \<Rightarrow> iloc (map close (rows (history r))) (- 1))))"

definition get_stock_data :: "world \<Rightarrow> clock \<Rightarrow> string \<Rightarrow> msg list \<times> snapshot option" where
  "get_stock_data w c t =
     (case yf w t of
        Inl e \<Rightarrow> ([StockError t e], None)
      | Inr r \<Rightarrow>
          (if rows (history r) = [] then ([NoHistory t], None)
           else (case resolve_price r of
             Inl e \<Rightarrow> ([StockError t e], None)
           | Inr p \<Rightarrow>
               (if p \<le> 0 then ([InvalidPrice t], None)
                else (case calculate_changes (history r) p c of
                  Inl e \<Rightarrow> ([StockError t e], None)
                | Inr ch \<Rightarrow>
                    ([], Some \<lparr>ticker = upper t, current_price = Num p, changes = ch,
                               friday_data = get_friday_data (history r) c,
                               kind = Stock\<rparr>))))))"

definition crypto_mapping :: "string \<rightharpoonup> string" where
  "crypto_mapping = map_of
     [(''BTC'', ''bitcoin''), (''ETH'', ''ethereum''), (''ADA'', ''cardano''),
      (''DOT'', ''polkadot''), (''LINK'', ''chainlink''), (''LTC'', ''litecoin''),
      (''XRP'', ''ripple''), (''DOGE'', ''dogecoin''), (''SHIB'', ''shiba-inu''),
      (''MATIC'', ''matic-network''), (''AVAX'', ''avalanche-2''), (''SOL'', ''solana''),
      (''HBAR'', ''hedera-hashgraph'')]"

definition of_json :: "real option \<Rightarrow> pyval" where
  "of_json v = (case v of None \<Rightarrow> PyNone | Some x \<Rightarrow> Num x)"

text \<open>\<open>coin_data.get(key, 0)\<close>\<close>

definition get_or_zero :: "(string \<rightharpoonup> real option) \<Rightarrow> string \<Rightarrow> pyval" where
  "get_or_zero coin_data k = (case coin_data k of None \<Rightarrow> Num 0 | Some v \<Rightarrow> of_json v)"

definition get_crypto_data :: "world \<Rightarrow> clock \<Rightarrow> string \<Rightarrow> msg list \<times> snapshot option" where
  "get_crypto_data w c t =
     (let coin_id = (case crypto_mapping (upper t) of Some i \<Rightarrow> i | None \<Rightarrow> lower t);
          currency = lower (currency_default w)
      in case cg_price w coin_id of
        Inl e \<Rightarrow> ([CryptoError t e], None)
      | Inr data \<Rightarrow>
      (case data coin_id of
        None \<Rightarrow> ([], None)
      | Some coin_data \<Rightarrow>
      (case coin_data currency of
        None \<Rightarrow> ([CryptoError t KeyError], None)
      | Some current \<Rightarrow>
      (case cg_chart w coin_id of
        Inl e \<Rightarrow> ([CryptoError t e], None)
      | Inr hist_data \<Rightarrow>
      (case hist_data ''prices'' of
        None \<Rightarrow> ([CryptoError t KeyError], None)
      | Some prices \<Rightarrow>
      (case calculate_ytd_change prices current c of
        Inl e \<Rightarrow> ([CryptoError t e], None)
      | Inr ytd_change \<Rightarrow>
          ([], Some \<lparr>ticker = upper t, current_price = of_json current,
                     changes = \<lparr>h24 = get_or_zero coin_data (currency @ ''_24h_change''),
                                d7 = get_or_zero coin_data (currency @ ''_7d_change''),
                                d30 = get_or_zero coin_data (currency @ ''_30d_change''),
                                ytd = Num ytd_change\<rparr>,
                     friday_data = get_crypto_friday_data prices c, kind = Crypto\<rparr>)))))))"

section \<open>The batch (display\_grid)\<close>

definition crypto_tickers :: "string list" where
  "crypto_tickers =
     [''BTC'', ''ETH'', ''ADA'', ''DOT'', ''LINK'', ''LTC'', ''XRP'', ''DOGE'', ''SHIB'',
      ''MATIC'', ''AVAX'', ''SOL'']"

text \<open>The test of line 406, which picks the provider.\<close>

definition provider_of :: "string \<Rightarrow> kind" where
  "provider_of t = (if upper t \<in> set crypto_tickers then Crypto else Stock)"

definition fetch :: "world \<Rightarrow> clock \<Rightarrow> string \<Rightarrow> msg list \<times> snapshot option" where
  "fetch w c t =
     (case provider_of t of
        Crypto \<Rightarrow> get_crypto_data w c t
      | Stock \<Rightarrow> get_stock_data w c t)"

text \<open>
  The fetch loop of \<open>display_grid\<close>: the console output so far and \<open>data_list\<close>.
  A ticker without data adds the "Failed to fetch" line and the loop goes on.
\<close>

fun fetch_all :: "world \<Rightarrow> clock \<Rightarrow> string list \<Rightarrow> msg list \<times> snapshot list" where
  "fetch_all w c [] = ([], [])"
| "fetch_all w c (t # rest) =
     (let (out, data) = fetch w c t;
          (out', data_list) = fetch_all w c rest
      in case data of
           Some d \<Rightarrow> (out @ out', d # data_list)
         | None \<Rightarrow> (out @ [FetchFailed t] @ out', data_list))"

text \<open>
  \<open>format_price\<close> compares the price with 1000 and \<open>format_change\<close> compares the
  change with 0: on None the comparison raises TypeError, on a number (inf and
  NaN included) it does not. The digits of the formatted text are not modelled;
  the value that is shown stands for it.
\<close>

definition format_price :: "pyval \<Rightarrow> error + pyval" where
  "format_price price = (case price of PyNone \<Rightarrow> Inl TypeError | v \<Rightarrow> Inr v)"

definition format_change :: "pyval \<Rightarrow> error + pyval" where
  "format_change change = (case change of PyNone \<Rightarrow> Inl TypeError | v \<Rightarrow> Inr v)"

text \<open>The panel of one ticker, identified with the snapshot it shows.\<close>

datatype panel = Panel snapshot

text \<open>
  \<open>create_ticker_panel\<close>: the price is formatted first, then the four changes in
  the order 24h, 7d, 30d, ytd; the chart of \<open>friday_data\<close> cannot raise. There
  is no try/except, so the first TypeError leaves the function.
\<close>

definition create_ticker_panel :: "snapshot \<Rightarrow> error + panel" where
  "create_ticker_panel d =
     (case format_price (current_price d) of
        Inl e \<Rightarrow> Inl e
      | Inr price_text \<Rightarrow>
     (case format_change (h24 (changes d)) of
        Inl e \<Rightarrow> Inl e
      | Inr t24 \<Rightarrow>
     (case format_change (d7 (changes d)) of
        Inl e \<Rightarrow> Inl e
      | Inr t7 \<Rightarrow>
     (case format_change (d30 (changes d)) of
        Inl e \<Rightarrow> Inl e
      | Inr t30 \<Rightarrow>
     (case format_change (ytd (changes d)) of
        Inl e \<Rightarrow> Inl e
      | Inr tytd \<Rightarrow> Inr (Panel d))))))"

text \<open>\<open>for data in data_list: panels.append(self.create_ticker_panel(data))\<close>\<close>

fun make_panels :: "snapshot list \<Rightarrow> error + panel list" where
  "make_panels [] = Inr []"
| "make_panels (d # rest) =
     (case create_ticker_panel d of
        Inl e \<Rightarrow> Inl e
      | Inr p \<Rightarrow>
          (case make_panels rest of
             Inl e \<Rightarrow> Inl e
           | Inr ps \<Rightarrow> Inr (p # ps)))"

text \<open>
  \<open>for i in range(0, len(panels), max_per_row)\<close> with the slice
  \<open>panels[i:i + max_per_row]\<close>: a zero step raises ValueError, a negative step
  gives an empty range.
\<close>

function chunks :: "nat \<Rightarrow> 'a list \<Rightarrow> 'a list list" where
  "chunks k xs = (if k = 0 \<or> xs = [] then [] else take k xs # chunks k (drop k xs))"
  by pat_completeness auto
termination
  by (relation "measure (\<lambda>(k, xs). length xs)") auto

declare chunks.simps [simp del]

definition print_rows :: "int \<Rightarrow> panel list \<Rightarrow> error + panel list list" where
  "print_rows max_per_row panels =
     (if max_per_row = 0 then Inl ValueError
      else if max_per_row < 0 then Inr []
      else Inr (chunks (nat max_per_row) panels))"

text \<open>
  \<open>display_grid\<close>: what was printed by the fetch loop, and then either the
  exception that leaves the function or the rows of panels that are printed.
  The panels are all built before the first row is printed, so an exception in
  \<open>create_ticker_panel\<close> leaves no panel on the screen. \<open>max_per_row\<close> is
  \<open>config['display']['max_tickers_per_row']\<close>.
\<close>

definition display_grid ::
  "world \<Rightarrow> clock \<Rightarrow> int \<Rightarrow> string list \<Rightarrow> msg list \<times> (error + panel list list)" where
  "display_grid w c max_per_row tickers =
     (let (out, data_list) = fetch_all w c tickers
      in if data_list = [] then (out @ [NoDataAny], Inr [])
         else (case make_panels data_list of
                 Inl e \<Rightarrow> (out, Inl e)
               | Inr panels \<Rightarrow> (out, print_rows max_per_row panels)))"

text \<open>A snapshot none of whose displayed values is None.\<close>

definition printable :: "snapshot \<Rightarrow> bool" where
  "printable d \<longleftrightarrow>
     current_price d \<noteq> PyNone \<and> h24 (changes d) \<noteq> PyNone \<and> d7 (changes d) \<noteq> PyNone \<and>
     d30 (changes d) \<noteq> PyNone \<and> ytd (changes d) \<noteq> PyNone"

section \<open>Anchors named by the specification, and concrete inputs\<close>

text \<open>
  The year-to-date anchor as the specification words it: the Close of the earliest
  row of the current calendar year and, when no row falls in that year, the
  Close of the earliest row of the whole series. It is compared below with what
  \<open>calculate_changes\<close> computes.
\<close>

definition spec_ytd_anchor :: "dataframe \<Rightarrow> clock \<Rightarrow> real" where
  "spec_ytd_anchor h c =
     (case filter (\<lambda>r. year r = now_year c) (rows h) of
        [] \<Rightarrow> close (hd (rows h))
      | r # _ \<Rightarrow> close r)"

definition clock0 :: clock where
  "clock0 = \<lparr>now_year = 2024, year_start = 1000, three_months_ago = 10000\<rparr>"

definition day :: "real \<Rightarrow> int \<Rightarrow> real \<Rightarrow> row" where
  "day t y p = \<lparr>ts = t, year = y, weekday = 0, close = p\<rparr>"

definition week_frame :: dataframe where
  "week_frame =
     \<lparr>tz_aware = False,
      rows = map (\<lambda>p. day 20000 2024 p) [100, 101, 102, 103, 104, 105, 106]\<rparr>"

definition month_frame :: dataframe where
  "month_frame = \<lparr>tz_aware = False, rows = replicate 30 (day 20000 2024 100)\<rparr>"


text \<open>The forty daily closes 100, 101, ..., 139 of the specification's scenario.\<close>

definition forty_days :: dataframe where
  "forty_days = \<lparr>tz_aware = False, rows = map (\<lambda>i. day 20000 2024 (100 + real i)) [0 ..< 40]\<rparr>"

definition two_year_frame :: dataframe where
  "two_year_frame =
     \<lparr>tz_aware = False,
      rows = [day 20000 2023 80, day 20001 2023 90, day 20002 2024 100, day 20003 2024 110]\<rparr>"

text \<open>
  A world in which CoinGecko quotes bitcoin at 0 and has one chart point, inside
  the current year and inside the 90-day window of \<open>clock0\<close>.
\<close>

definition zero_price_world :: world where
  "zero_price_world =
     \<lparr>yf = (\<lambda>t. Inl ProviderError),
      cg_price = (\<lambda>i. Inr [''bitcoin'' \<mapsto> [''usd'' \<mapsto> Some 0]]),
      cg_chart = (\<lambda>i. Inr [''prices'' \<mapsto> [(20000000, 100)]]),
      currency_default = ''USD''\<rparr>"

text \<open>
  A world in which yfinance has sound data for every ticker (price 150, the
  history \<open>two_year_frame\<close>) and CoinGecko quotes bitcoin at 50000 with a null
  24h change.
\<close>

definition null_change_world :: world where
  "null_change_world =
     \<lparr>yf = (\<lambda>t. Inr \<lparr>info = (\<lambda>k. if k = ''currentPrice'' then Some (Some 150) else None),
                      history = two_year_frame\<rparr>),
      cg_price = (\<lambda>i. Inr [''bitcoin'' \<mapsto> [''usd'' \<mapsto> Some 50000,
                                              ''usd_24h_change'' \<mapsto> None]]),
      cg_chart = (\<lambda>i. Inr [''prices'' \<mapsto> [(20000000, 100)]]),
      currency_default = ''USD''\<rparr>"



text \<open>
  Two rows older than the 90-day window of \<open>clock0\<close>, once on a time-zone aware
  index and once on a naive one, and one hundred daily crypto points of which the
  last ninety lie in the window.
\<close>

definition stale_tz_frame :: dataframe where
  "stale_tz_frame = \<lparr>tz_aware = True, rows = [day 500 2024 100, day 600 2024 101]\<rparr>"

definition stale_frame :: dataframe where
  "stale_frame = \<lparr>tz_aware = False, rows = [day 500 2024 100, day 600 2024 101]\<rparr>"

definition hundred_days :: "(real \<times> real) list" where
  "hundred_days = map (\<lambda>i. (real i * 1000000, real i)) [0 ..< 100]"

section \<open>Positional indexing\<close>

lemma iloc_neg_in:
  "0 < k \<Longrightarrow> k \<le> length xs \<Longrightarrow> iloc xs (- int k) = Inr (xs ! (length xs - k))"
  by (simp add: iloc_def nat_diff_distrib')

lemma iloc_neg_out:
  "length xs < k \<Longrightarrow> iloc xs (- int k) = Inl IndexError"
  by (simp add: iloc_def)

lemma iloc_zero: "xs \<noteq> [] \<Longrightarrow> iloc xs 0 = Inr (hd xs)"
  by (cases xs) (simp_all add: iloc_def)

lemma pct_at_neg_in:
  "0 < k \<Longrightarrow> k \<le> length xs \<Longrightarrow>
     pct_at xs (- int k) cur = Inr (np_pct cur (xs ! (length xs - k)))"
  by (simp add: pct_at_def iloc_neg_in)

lemma pct_at_neg_out:
  "length xs < k \<Longrightarrow> pct_at xs (- int k) cur = Inl IndexError"
  by (simp add: pct_at_def iloc_neg_out)

lemma pct_at_zero: "xs \<noteq> [] \<Longrightarrow> pct_at xs 0 cur = Inr (np_pct cur (hd xs))"
  by (simp add: pct_at_def iloc_zero)

lemma pct_at_m2:
  "2 \<le> length xs \<Longrightarrow> pct_at xs (- 2) cur = Inr (np_pct cur (xs ! (length xs - 2)))"
  using pct_at_neg_in [of 2 xs cur] by simp

lemma pct_at_m8:
  "8 \<le> length xs \<Longrightarrow> pct_at xs (- 8) cur = Inr (np_pct cur (xs ! (length xs - 8)))"
  using pct_at_neg_in [of 8 xs cur] by simp

lemma pct_at_m8_out: "length xs < 8 \<Longrightarrow> pct_at xs (- 8) cur = Inl IndexError"
  using pct_at_neg_out [of xs 8 cur] by simp

lemma pct_at_m31:
  "31 \<le> length xs \<Longrightarrow> pct_at xs (- 31) cur = Inr (np_pct cur (xs ! (length xs - 31)))"
  using pct_at_neg_in [of 31 xs cur] by simp

lemma pct_at_m31_out: "length xs < 31 \<Longrightarrow> pct_at xs (- 31) cur = Inl IndexError"
  using pct_at_neg_out [of xs 31 cur] by simp

section \<open>What calculate\_changes returns, and when it raises\<close>

lemma calculate_changes_empty:
  "rows h = [] \<Longrightarrow>
     calculate_changes h cur c = Inr \<lparr>h24 = Num 0, d7 = Num 0, d30 = Num 0, ytd = Num 0\<rparr>"
  by (simp add: calculate_changes_def)

lemma ytd_step:
  assumes "rows h \<noteq> []"
  shows "(let ytd_data = map close (filter (\<lambda>r. year r = now_year c) (rows h)) in
           (if ytd_data \<noteq> [] then pct_at ytd_data 0 cur
            else if map close (rows h) \<noteq> [] then pct_at (map close (rows h)) 0 cur
            else Inr (Num 0))) = Inr (np_pct cur (spec_ytd_anchor h c))"
proof (cases "filter (\<lambda>r. year r = now_year c) (rows h)")
  case Nil
  with assms show ?thesis
    by (simp add: spec_ytd_anchor_def pct_at_zero hd_map)
next
  case (Cons r rs)
  then show ?thesis
    by (simp add: spec_ytd_anchor_def pct_at_zero)
qed

lemma calculate_changes_raises_7:
  "length (rows h) = 7 \<Longrightarrow> calculate_changes h cur c = Inl IndexError"
  by (auto simp add: calculate_changes_def Let_def pct_at_m2 pct_at_m8_out)

lemma calculate_changes_raises_30:
  "length (rows h) = 30 \<Longrightarrow> calculate_changes h cur c = Inl IndexError"
  by (auto simp add: calculate_changes_def Let_def pct_at_m2 pct_at_m8 pct_at_m31_out)

text \<open>
  On every other length the function returns, each period with the anchor index
  and the fallback the specification documents.
\<close>

lemma calculate_changes_returns:
  assumes "rows h \<noteq> []" "length (rows h) \<noteq> 7" "length (rows h) \<noteq> 30"
  shows "calculate_changes h cur c = Inr
     \<lparr>h24 = (if 2 \<le> length (rows h)
             then np_pct cur (map close (rows h) ! (length (rows h) - 2)) else Num 0),
      d7 = (if 7 \<le> length (rows h)
            then np_pct cur (map close (rows h) ! (length (rows h) - 8)) else Num 0),
      d30 = (if 30 \<le> length (rows h)
             then np_pct cur (map close (rows h) ! (length (rows h) - 31)) else Num 0),
      ytd = np_pct cur (spec_ytd_anchor h c)\<rparr>"
proof -
  have y: "(let ytd_data = map close (filter (\<lambda>r. year r = now_year c) (rows h)) in
           (if ytd_data \<noteq> [] then pct_at ytd_data 0 cur
            else if map close (rows h) \<noteq> [] then pct_at (map close (rows h)) 0 cur
            else Inr (Num 0))) = Inr (np_pct cur (spec_ytd_anchor h c))"
    using assms(1) by (rule ytd_step)
  have a: "2 \<le> length (rows h) \<Longrightarrow> pct_at (map close (rows h)) (- 2) cur =
      Inr (np_pct cur (map close (rows h) ! (length (rows h) - 2)))"
    using pct_at_m2 [of "map close (rows h)" cur] by simp
  have b: "7 \<le> length (rows h) \<Longrightarrow> pct_at (map close (rows h)) (- 8) cur =
      Inr (np_pct cur (map close (rows h) ! (length (rows h) - 8)))"
    using pct_at_m8 [of "map close (rows h)" cur] assms(2) by simp
  have d: "30 \<le> length (rows h) \<Longrightarrow> pct_at (map close (rows h)) (- 31) cur =
      Inr (np_pct cur (map close (rows h) ! (length (rows h) - 31)))"
    using pct_at_m31 [of "map close (rows h)" cur] assms(3) by simp
  show ?thesis
    unfolding calculate_changes_def Let_def
    using assms(1) a b d y [unfolded Let_def]
    by (simp del: nth_map)
qed

lemma calculate_changes_returns_iff:
  "(\<exists>ch. calculate_changes h cur c = Inr ch) \<longleftrightarrow> length (rows h) \<noteq> 7 \<and> length (rows h) \<noteq> 30"
proof
  assume "\<exists>ch. calculate_changes h cur c = Inr ch"
  then show "length (rows h) \<noteq> 7 \<and> length (rows h) \<noteq> 30"
    using calculate_changes_raises_7 [of h cur c] calculate_changes_raises_30 [of h cur c]
    by auto
next
  assume n: "length (rows h) \<noteq> 7 \<and> length (rows h) \<noteq> 30"
  show "\<exists>ch. calculate_changes h cur c = Inr ch"
  proof (cases "rows h = []")
    case True
    then show ?thesis by (simp add: calculate_changes_empty)
  next
    case False
    then show ?thesis using n calculate_changes_returns [of h cur c] by simp
  qed
qed

lemma small_fits: "\<bar>x\<bar> \<le> 1000000 \<Longrightarrow> \<not> overflows x"
proof -
  have "(1000000::real) < 2 ^ 1024 - 2 ^ 970" by simp
  then show "\<bar>x\<bar> \<le> 1000000 \<Longrightarrow> \<not> overflows x"
    unfolding overflows_def by linarith
qed

lemma np_pct_small:
  assumes "a \<noteq> 0" "\<bar>current - a\<bar> \<le> 1000000" "\<bar>(current - a) / a\<bar> \<le> 10000"
  shows "np_pct current a = Num (((current - a) / a) * 100)"
proof -
  define q where "q = (current - a) / a"
  have q: "\<bar>q\<bar> \<le> 10000" using assms(3) unfolding q_def .
  then have "\<bar>q * 100\<bar> \<le> 1000000" by (simp add: abs_mult)
  moreover from q have "\<bar>q\<bar> \<le> 1000000" by simp
  ultimately have "\<not> overflows q" "\<not> overflows (q * 100)"
    by (simp_all add: small_fits)
  moreover have "\<not> overflows (current - a)" using assms(2) by (rule small_fits)
  ultimately show ?thesis
    using assms(1) unfolding np_pct_def q_def by (simp only: if_False)
qed


lemma np_pct_not_None: "np_pct current a \<noteq> PyNone"
  by (simp add: np_pct_def)

text \<open>
  A nonzero anchor does not make the change finite: the anchor \<open>2^-600\<close> and the
  price \<open>2^600\<close> are both doubles, and the quotient overflows.
\<close>

lemma np_pct_overflow_example: "np_pct (2 ^ 600) (1 / 2 ^ 600) = NonFinite"
proof -
  have "((2::real) ^ 600 - 1 / 2 ^ 600) / (1 / 2 ^ 600) = 2 ^ 1200 - 1"
    by (simp add: algebra_simps power_add [symmetric])
  moreover have "(2::real) ^ 1024 - 2 ^ 970 \<le> \<bar>2 ^ 1200 - 1\<bar>" by simp
  ultimately have "overflows (((2::real) ^ 600 - 1 / 2 ^ 600) / (1 / 2 ^ 600))"
    unfolding overflows_def by (simp only:)
  then show ?thesis by (simp add: np_pct_def)
qed

lemma np_pct_121_100: "np_pct 121 100 = Num 21"
  using np_pct_small [of 100 121] by simp

lemma np_pct_150_100: "np_pct 150 100 = Num 50"
  using np_pct_small [of 100 150] by simp

lemma np_pct_139:
  "np_pct 139 138 = Num (((139 - 138) / 138) * 100)"
  "np_pct 139 132 = Num (((139 - 132) / 132) * 100)"
  "np_pct 139 109 = Num (((139 - 109) / 109) * 100)"
  "np_pct 139 100 = Num (((139 - 100) / 100) * 100)"
  using np_pct_small [of 138 139] np_pct_small [of 132 139] np_pct_small [of 109 139]
    np_pct_small [of 100 139]
  by simp_all

lemma first_price_from_find:
  "first_price_from s xs = map_option snd (List.find (\<lambda>(t, p). s \<le> t) xs)"
  by (induction xs) auto


lemma two_year_eval:
  "calculate_changes two_year_frame 121 clock0 =
     Inr \<lparr>h24 = Num 21, d7 = Num 0, d30 = Num 0, ytd = Num 21\<rparr>"
  using calculate_changes_returns [of two_year_frame 121 clock0]
  by (simp add: two_year_frame_def day_def spec_ytd_anchor_def clock0_def np_pct_121_100)

text \<open>
  The scenario of the specification: forty daily points rising from 100 to 139,
  current price 139.
\<close>

lemma forty_days_scenario:
  "calculate_changes forty_days 139 clock0 =
     Inr \<lparr>h24 = Num (((139 - 138) / 138) * 100), d7 = Num (((139 - 132) / 132) * 100),
          d30 = Num (((139 - 109) / 109) * 100), ytd = Num (((139 - 100) / 100) * 100)\<rparr>"
proof -
  have f: "filter (\<lambda>r. year r = now_year clock0) (rows forty_days) = rows forty_days"
    by (simp add: forty_days_def day_def clock0_def)
  have "rows forty_days = day 20000 2024 100 # map (\<lambda>i. day 20000 2024 (100 + real i)) [1 ..< 40]"
    by (simp add: forty_days_def upt_conv_Cons [of 0 40])
  then have a: "spec_ytd_anchor forty_days clock0 = 100"
    unfolding spec_ytd_anchor_def f by (simp add: day_def)
  show ?thesis
    using calculate_changes_returns [of forty_days 139 clock0] a
    by (simp add: forty_days_def np_pct_139 day_def)
qed

section \<open>The claims about the change calculator\<close>

text \<open>
  C1. The claim: for every series and every positive current price, a series of at
  least 2 points has the 24h change \<open>(currentPrice - anchor)/anchor*100\<close> with the
  anchor at \<open>series[len-2]\<close>. On a series of exactly 7 points the 24h anchor exists
  and is nonzero, yet \<open>calculate_changes\<close> raises IndexError at \<open>iloc[-8]\<close> and no
  24h change is returned at all: the guard \<open>len(hist_data) >= 7\<close> is one short of
  the index it protects. On every length other than 7 and 30 the documented
  formula and anchors hold (\<open>calculate_changes_returns\<close>).
\<close>

theorem calculate_changes_no_24h_at_seven_points:
  "2 \<le> length (rows week_frame) \<and>
   map close (rows week_frame) ! (length (rows week_frame) - 2) = 105 \<and>
   calculate_changes week_frame 107 clock0 = Inl IndexError"
  using calculate_changes_raises_7 [of week_frame 107 clock0]
  by (simp add: week_frame_def day_def)

text \<open>
  C2. The claim: \<open>calculate_changes\<close> raises no exception for any series length and
  in particular returns normally for a series of exactly 7 points and for one of
  exactly 30 points. The code raises IndexError on both: with 7 points the guard
  \<open>>= 7\<close> admits \<open>iloc[-8]\<close>, with 30 points the guard \<open>>= 30\<close> admits \<open>iloc[-31]\<close>.
\<close>

theorem calculate_changes_raises_at_7_and_30:
  "length (rows week_frame) = 7 \<and>
   calculate_changes week_frame 106 clock0 = Inl IndexError \<and>
   length (rows month_frame) = 30 \<and>
   calculate_changes month_frame 100 clock0 = Inl IndexError"
  using calculate_changes_raises_7 [of week_frame 106 clock0]
        calculate_changes_raises_30 [of month_frame 100 clock0]
  by (simp add: week_frame_def month_frame_def)






text \<open>
  C4, as stated, fails on the crypto path: when no point lies in the current
  year, \<open>calculate_ytd_change\<close> returns 0 and does not fall back to the first
  point of the series (here 50, which would give a change of 100).
\<close>

theorem crypto_ytd_no_fallback_counterexample:
  "calculate_ytd_change [(500, 50), (600, 60)] (Some 100) clock0 = Inr 0"
  by (simp add: calculate_ytd_change_def clock0_def)

text \<open>
  C4, amended. On the equity path, whenever \<open>calculate_changes\<close> returns, the YTD
  anchor is the earliest row of the current calendar year and, when there is
  none, the first row of the series; an empty series gives 0. On the crypto
  path the anchor is the first point at or after the start of the current year;
  when there is none (in particular on an empty series) the YTD change is 0,
  with no fallback to the first point; a zero anchor raises ZeroDivisionError.
\<close>

theorem ytd_anchor_selection:
  "(calculate_changes h cur c = Inr ch \<longrightarrow>
      ytd ch = (if rows h = [] then Num 0 else np_pct cur (spec_ytd_anchor h c))) \<and>
   calculate_ytd_change price_data (Some cur') c' =
     (case List.find (\<lambda>(t, p). year_start c' * 1000 \<le> t) price_data of
        None \<Rightarrow> Inr 0
      | Some (t, a) \<Rightarrow>
          if a = 0 then Inl ZeroDivisionError else Inr (((cur' - a) / a) * 100))"
proof
  show "calculate_changes h cur c = Inr ch \<longrightarrow>
      ytd ch = (if rows h = [] then Num 0 else np_pct cur (spec_ytd_anchor h c))"
  proof
    assume r: "calculate_changes h cur c = Inr ch"
    show "ytd ch = (if rows h = [] then Num 0 else np_pct cur (spec_ytd_anchor h c))"
    proof (cases "rows h = []")
      case True
      with r show ?thesis by (auto simp add: calculate_changes_empty)
    next
      case False
      have n7: "length (rows h) \<noteq> 7"
        using r calculate_changes_raises_7 [of h cur c] by auto
      have n30: "length (rows h) \<noteq> 30"
        using r calculate_changes_raises_30 [of h cur c] by auto
      show ?thesis
        using r calculate_changes_returns [OF False n7 n30, of cur c] False by auto
    qed
  qed
next
  show "calculate_ytd_change price_data (Some cur') c' =
     (case List.find (\<lambda>(t, p). year_start c' * 1000 \<le> t) price_data of
        None \<Rightarrow> Inr 0
      | Some (t, a) \<Rightarrow>
          if a = 0 then Inl ZeroDivisionError else Inr (((cur' - a) / a) * 100))"
    by (cases price_data)
       (auto simp add: calculate_ytd_change_def first_price_from_find split: option.splits)
qed

theorem ytd_anchor_selection_witness:
  "calculate_changes two_year_frame 121 clock0 =
     Inr \<lparr>h24 = Num 21, d7 = Num 0, d30 = Num 0, ytd = Num 21\<rparr> \<and>
   spec_ytd_anchor two_year_frame clock0 = 100 \<and>
   calculate_ytd_change [(500, 50), (2000000, 80), (3000000, 60)] (Some 100) clock0 = Inr 25"
  using ytd_anchor_selection [of two_year_frame 121 clock0
          "\<lparr>h24 = Num 21, d7 = Num 0, d30 = Num 0, ytd = Num 21\<rparr>"
          "[(500, 50), (2000000, 80), (3000000, 60)]" 100 clock0]
        two_year_eval
  by (simp add: two_year_frame_def day_def spec_ytd_anchor_def clock0_def)

section \<open>The claim about rejecting invalid prices\<close>

lemma upper_BTC: "upper ''BTC'' = ''BTC''"
  by code_simp

lemma lower_USD: "lower ''USD'' = ''usd''"
  by code_simp

text \<open>The equity path does reject: a resolved price that is not positive yields no snapshot.\<close>

lemma stock_rejects_nonpositive:
  assumes "yf w t = Inr r" "rows (history r) \<noteq> []" "resolve_price r = Inr p" "p \<le> 0"
  shows "get_stock_data w c t = ([InvalidPrice t], None)"
  using assms by (simp add: get_stock_data_def)

lemma stock_snapshot_positive:
  assumes "snd (get_stock_data w c t) = Some s"
  shows "\<exists>p. 0 < p \<and> current_price s = Num p"
  using assms
  by (auto simp add: get_stock_data_def split: sum.splits if_splits)

lemma btc_snapshot:
  "get_crypto_data zero_price_world clock0 ''BTC'' =
     ([], Some \<lparr>ticker = ''BTC'', current_price = Num 0,
                changes = \<lparr>h24 = Num 0, d7 = Num 0, d30 = Num 0, ytd = Num (- 100)\<rparr>,
                friday_data = [100], kind = Crypto\<rparr>)"
proof -
  have s: "stride_loop [(20000000, 100)] 0 [] = [100]"
    by (simp add: stride_loop.simps)
  show ?thesis
    by (simp add: get_crypto_data_def zero_price_world_def upper_BTC lower_USD
        crypto_mapping_def calculate_ytd_change_def clock0_def of_json_def get_or_zero_def
        get_crypto_friday_data_def crypto_window_def s)
qed

text \<open>
  C5. The claim: a missing or non-positive current price is rejected on both
  paths. \<open>get_stock_data\<close> tests \<open>current_price <= 0\<close>; \<open>get_crypto_data\<close> has no
  such test, and a CoinGecko quote of 0 yields a snapshot with price 0.
\<close>

theorem crypto_zero_price_accepted:
  "get_crypto_data zero_price_world clock0 ''BTC'' =
     ([], Some \<lparr>ticker = ''BTC'', current_price = Num 0,
                changes = \<lparr>h24 = Num 0, d7 = Num 0, d30 = Num 0, ytd = Num (- 100)\<rparr>,
                friday_data = [100], kind = Crypto\<rparr>)"
  by (rule btc_snapshot)

section \<open>The samplers: bounds and closed form\<close>

lemma tail_length: "length (tail n xs) = min n (length xs)"
  by (simp add: tail_def)

lemma tail_subseq: "subseq (tail n xs) xs"
  unfolding tail_def by (rule suffix_imp_subseq) (rule suffix_drop)

lemma div7_step: "i < (n::nat) \<Longrightarrow> (n - i + 6) div 7 = Suc ((n - (i + 7) + 6) div 7)"
proof -
  assume lt: "i < n"
  define d where "d = n - Suc i"
  have a: "n - i = Suc d" using lt by (simp add: d_def)
  have b: "n - (i + 7) = d - 6" by (simp add: d_def)
  have "(Suc d + 6) div 7 = Suc ((d - 6 + 6) div 7)"
  proof (cases "d < 6")
    case True
    then show ?thesis by simp
  next
    case False
    then obtain e where e: "d = e + 6" by (metis add.commute le_Suc_ex not_less)
    show ?thesis unfolding e by simp
  qed
  then show ?thesis unfolding a b .
qed

lemma upt_0_Suc: "[0 ..< Suc k] = 0 # map Suc [0 ..< k]"
proof -
  have "[0 ..< Suc k] = 0 # [Suc 0 ..< Suc k]" by (rule upt_conv_Cons) simp
  also have "[Suc 0 ..< Suc k] = map Suc [0 ..< k]" by (rule map_Suc_upt [symmetric])
  finally show ?thesis .
qed

lemma stride_past_end: "\<not> i < length W \<Longrightarrow> stride_loop W i acc = acc"
  by (simp add: stride_loop.simps [of W i acc])

lemma stride_full:
  "i < length W \<Longrightarrow> \<not> length acc < 12 \<Longrightarrow> stride_loop W i acc = stride_loop W (i + 7) acc"
  by (simp add: stride_loop.simps [of W i acc])

lemma stride_take:
  "i < length W \<Longrightarrow> length acc < 12 \<Longrightarrow>
     stride_loop W i acc = stride_loop W (i + 7) (acc @ [snd (W ! i)])"
  by (simp add: stride_loop.simps [of W i acc])


lemma stride_loop_closed:
  "stride_loop W i acc =
     acc @ map (\<lambda>k. snd (W ! (i + 7 * k)))
             [0 ..< min (12 - length acc) ((length W - i + 6) div 7)]"
proof (induction W i acc rule: stride_loop.induct)
  case (1 W i acc)
  show ?case
  proof (cases "i < length W")
    case False
    then have "(length W - i + 6) div 7 = 0" by simp
    with False show ?thesis by (simp add: stride_past_end)
  next
    case True
    note ih = "1.IH" [OF True]
    show ?thesis
    proof (cases "length acc < 12")
      case False
      then have z: "12 - length acc = 0" by simp
      from False ih have "stride_loop W (i + 7) acc =
          acc @ map (\<lambda>k. snd (W ! (i + 7 + 7 * k)))
             [0 ..< min (12 - length acc) ((length W - (i + 7) + 6) div 7)]"
        by simp
      then have "stride_loop W (i + 7) acc = acc" unfolding z by simp
      then show ?thesis using True False z by (simp add: stride_full)
    next
      case lt: True
      define m where "m = (length W - (i + 7) + 6) div 7"
      define j where "j = 11 - length acc"
      have m: "(length W - i + 6) div 7 = Suc m"
        unfolding m_def using True by (rule div7_step)
      have j: "12 - length acc = Suc j" using lt by (simp add: j_def)
      have j': "12 - length (acc @ [snd (W ! i)]) = j" by (simp add: j_def)
      have "stride_loop W i acc = stride_loop W (i + 7) (acc @ [snd (W ! i)])"
        using True lt by (rule stride_take)
      also have "\<dots> = (acc @ [snd (W ! i)]) @
          map (\<lambda>k. snd (W ! (i + 7 + 7 * k))) [0 ..< min j m]"
        using ih lt unfolding m_def [symmetric] by (simp add: j_def)
      also have "\<dots> = acc @ map (\<lambda>k. snd (W ! (i + 7 * k))) [0 ..< Suc (min j m)]"
        unfolding upt_0_Suc by (simp add: comp_def add.assoc)
      also have "Suc (min j m) = min (12 - length acc) ((length W - i + 6) div 7)"
        unfolding m j by simp
      finally show ?thesis .
    qed
  qed
qed


lemma stride_loop_subseq:
  "\<exists>r. stride_loop W i acc = acc @ r \<and> subseq r (drop i (map snd W))"
proof (induction W i acc rule: stride_loop.induct)
  case (1 W i acc)
  show ?case
  proof (cases "i < length W")
    case False
    then show ?thesis by (simp add: stride_past_end)
  next
    case True
    from "1.IH" [OF True] obtain r where
      r: "stride_loop W (i + 7) (if length acc < 12 then acc @ [snd (W ! i)] else acc) =
            (if length acc < 12 then acc @ [snd (W ! i)] else acc) @ r"
         "subseq r (drop (i + 7) (map snd W))"
      by blast
    have d: "drop i (map snd W) = snd (W ! i) # drop (Suc i) (map snd W)"
      using True by (simp add: Cons_nth_drop_Suc [symmetric])
    have "drop (i + 7) (map snd W) = drop 6 (drop (Suc i) (map snd W))"
      by (simp add: add.commute)
    then have "suffix (drop (i + 7) (map snd W)) (drop (Suc i) (map snd W))"
      by (simp only: suffix_drop)
    then have "subseq (drop (i + 7) (map snd W)) (drop (Suc i) (map snd W))"
      by (rule suffix_imp_subseq)
    with r(2) have s: "subseq r (drop (Suc i) (map snd W))"
      by (rule subseq_order.trans)
    show ?thesis
    proof (cases "length acc < 12")
      case lt: True
      with r(1) True have "stride_loop W i acc = acc @ (snd (W ! i) # r)"
        by (simp add: stride_take)
      moreover have "subseq (snd (W ! i) # r) (drop i (map snd W))"
        unfolding d using s by simp
      ultimately show ?thesis by blast
    next
      case False
      with r(1) True have "stride_loop W i acc = acc @ r"
        by (simp add: stride_full)
      moreover have "subseq r (drop i (map snd W))"
        unfolding d using s by (rule list_emb_Cons)
      ultimately show ?thesis by blast
    qed
  qed
qed

lemma crypto_sample_closed:
  "get_crypto_friday_data price_data c =
     map (\<lambda>k. snd (crypto_window price_data c ! (7 * k)))
       [0 ..< min 12 ((length (crypto_window price_data c) + 6) div 7)]"
proof (cases "price_data = []")
  case True
  then show ?thesis by (simp add: get_crypto_friday_data_def crypto_window_def)
next
  case False
  then show ?thesis
    using stride_loop_closed [of "crypto_window price_data c" 0 "[]"]
    by (simp add: get_crypto_friday_data_def)
qed

lemma crypto_sample_subseq:
  "subseq (get_crypto_friday_data price_data c) (map snd (crypto_window price_data c))"
proof (cases "price_data = []")
  case True
  then show ?thesis by (simp add: get_crypto_friday_data_def)
next
  case False
  then show ?thesis
    using stride_loop_subseq [of "crypto_window price_data c" 0 "[]"]
    by (auto simp add: get_crypto_friday_data_def)
qed

lemma crypto_window_subseq: "subseq (map snd (crypto_window price_data c)) (map snd price_data)"
  unfolding crypto_window_def by (rule subseq_map) (rule subseq_filter_left)

lemma friday_length_12: "length (get_friday_data h c) \<le> 12"
  by (simp add: get_friday_data_def recent_window_def Let_def tail_length)

lemma friday_subseq: "subseq (get_friday_data h c) (map close (rows h))"
proof -
  have w: "subseq (map close (window_rows h c)) (map close (rows h))"
    unfolding window_rows_def by (rule subseq_map) (rule subseq_filter_left)
  have f: "subseq (map close (filter (\<lambda>r. weekday r = 4) (window_rows h c)))
             (map close (window_rows h c))"
    by (rule subseq_map) (rule subseq_filter_left)
  have t: "\<And>xs. subseq xs (map close (rows h)) \<Longrightarrow> subseq (tail 12 xs) (map close (rows h))"
    using tail_subseq subseq_order.trans by blast
  show ?thesis
    using t [OF w] t [OF subseq_order.trans [OF f w]] t [OF subseq_order.refl]
    by (simp add: get_friday_data_def recent_window_def Let_def)
qed

lemma friday_window_bound:
  "\<not> tz_aware h \<Longrightarrow> length (get_friday_data h c) \<le> length (window_rows h c)"
proof -
  have "min 12 (length (filter (\<lambda>r. weekday r = 4) (window_rows h c)))
      \<le> length (window_rows h c)"
    by (rule min.coboundedI2) (rule length_filter_le)
  then show "\<not> tz_aware h \<Longrightarrow> length (get_friday_data h c) \<le> length (window_rows h c)"
    by (simp add: get_friday_data_def recent_window_def Let_def tail_length)
qed

lemma crypto_length_12: "length (get_crypto_friday_data p c) \<le> 12"
  by (simp add: crypto_sample_closed)

lemma crypto_window_bound:
  "length (get_crypto_friday_data p c) \<le> length (crypto_window p c)"
  using list_emb_length [OF crypto_sample_subseq [of p c]] by simp

lemma hundred_days_window:
  "crypto_window hundred_days clock0 = map (\<lambda>i. (real i * 1000000, real i)) [10 ..< 100]"
proof -
  have split: "[0 ..< 100] = [0 ..< 10] @ [10 ..< (100::nat)]"
    using upt_add_eq_append [of 0 10 90] by simp
  have lo: "filter (\<lambda>(t, p). three_months_ago clock0 * 1000 \<le> t)
              (map (\<lambda>i. (real i * 1000000, real i)) [0 ..< 10]) = []"
    by (auto simp add: filter_empty_conv clock0_def)
  have hi: "filter (\<lambda>(t, p). three_months_ago clock0 * 1000 \<le> t)
              (map (\<lambda>i. (real i * 1000000, real i)) [10 ..< 100]) =
            map (\<lambda>i. (real i * 1000000, real i)) [10 ..< 100]"
    by (auto simp add: filter_id_conv clock0_def)
  show ?thesis
    unfolding crypto_window_def hundred_days_def split map_append filter_append lo hi
    by simp
qed

lemma upt_12: "[0 ..< 12] = [0, 1, 2, 3, 4, 5, 6, 7, 8, 9, 10, 11 :: nat]"
  by code_simp

section \<open>The claims about the series sampler\<close>

text \<open>
  C6, as stated, fails on the equity path: when the index is time-zone aware the
  window filter raises, the except branch returns the last closes of the whole
  frame, and the two prices returned here exceed the zero rows that lie in the
  90-day window.
\<close>

theorem sampler_exceeds_window_counterexample:
  "length (get_friday_data stale_tz_frame clock0) = 2 \<and>
   length (window_rows stale_tz_frame clock0) = 0"
  by (simp add: get_friday_data_def recent_window_def window_rows_def stale_tz_frame_def
      day_def clock0_def tail_def)

text \<open>
  C6, amended. Both samplers return at most 12 prices, a subsequence of the input
  prices in input order (so chronological when the input is), and return the
  empty list on empty input; no branch raises. The crypto sampler never returns
  more prices than the 90-day window holds, and neither does the equity sampler
  whenever the window filter evaluates; when the filter raises, the equity
  sampler returns the last 12 closes of the whole series instead.
\<close>

theorem sampler_bounds:
  "length (get_friday_data h c) \<le> 12 \<and>
   subseq (get_friday_data h c) (map close (rows h)) \<and>
   (\<not> tz_aware h \<longrightarrow> length (get_friday_data h c) \<le> length (window_rows h c)) \<and>
   (tz_aware h \<longrightarrow> get_friday_data h c = tail 12 (map close (rows h))) \<and>
   length (get_crypto_friday_data p c') \<le> 12 \<and>
   length (get_crypto_friday_data p c') \<le> length (crypto_window p c') \<and>
   subseq (get_crypto_friday_data p c') (map snd p) \<and>
   (rows h = [] \<longrightarrow> get_friday_data h c = []) \<and>
   get_crypto_friday_data [] c' = []"
proof -
  have a: "tz_aware h \<longrightarrow> get_friday_data h c = tail 12 (map close (rows h))"
    by (simp add: get_friday_data_def recent_window_def tail_def)
  have b: "subseq (get_crypto_friday_data p c') (map snd p)"
    using crypto_sample_subseq [of p c'] crypto_window_subseq [of p c']
    by (rule subseq_order.trans)
  have e: "rows h = [] \<longrightarrow> get_friday_data h c = []"
    by (simp add: get_friday_data_def)
  have e': "get_crypto_friday_data [] c' = []"
    by (simp add: get_crypto_friday_data_def)
  show ?thesis
    using a b e e' friday_length_12 [of h c] friday_subseq [of h c]
      friday_window_bound [of h c] crypto_length_12 [of p c'] crypto_window_bound [of p c']
    by blast
qed

theorem sampler_bounds_witness:
  "\<not> tz_aware stale_frame \<and> get_friday_data stale_frame clock0 = [] \<and>
   tz_aware stale_tz_frame \<and> get_friday_data stale_tz_frame clock0 = [100, 101] \<and>
   length (get_crypto_friday_data [(500, 50), (20000000, 60)] clock0) \<le> 12"
  using sampler_bounds [of stale_frame clock0 "[(500, 50), (20000000, 60)]" clock0]
        sampler_bounds [of stale_tz_frame clock0 "[(500, 50), (20000000, 60)]" clock0]
  by (simp add: stale_frame_def stale_tz_frame_def window_rows_def day_def clock0_def tail_def)

text \<open>
  C7, as stated, fails: two crypto points older than 90 days give the empty
  sample, not the last points of the unfiltered series.
\<close>

theorem stale_series_no_fallback_counterexample:
  "get_crypto_friday_data [(500, 50), (600, 60)] clock0 = [] \<and>
   tail 12 (map snd [(500, 50), (600, 60 :: real)]) = [50, 60]"
  by (simp add: get_crypto_friday_data_def crypto_window_def clock0_def tail_def
      stride_past_end)

text \<open>
  C7, amended. For a non-empty series all of whose points are older than 90 days,
  the crypto sampler returns the empty list, and so does the equity sampler when
  the window filter evaluates; the last 12 closes of the full series are
  returned only by the equity sampler's except branch.
\<close>

theorem stale_series_sample:
  "(rows h \<noteq> [] \<and> (\<forall>r \<in> set (rows h). ts r < three_months_ago c) \<longrightarrow>
      get_friday_data h c = (if tz_aware h then tail 12 (map close (rows h)) else [])) \<and>
   (price_data \<noteq> [] \<and> (\<forall>x \<in> set price_data. fst x < three_months_ago c' * 1000) \<longrightarrow>
      get_crypto_friday_data price_data c' = [])"
proof (intro conjI impI)
  assume a: "rows h \<noteq> [] \<and> (\<forall>r \<in> set (rows h). ts r < three_months_ago c)"
  then have "window_rows h c = []"
    by (auto simp add: window_rows_def filter_empty_conv)
  with a show "get_friday_data h c = (if tz_aware h then tail 12 (map close (rows h)) else [])"
    by (simp add: get_friday_data_def recent_window_def tail_def)
next
  assume a: "price_data \<noteq> [] \<and> (\<forall>x \<in> set price_data. fst x < three_months_ago c' * 1000)"
  then have "crypto_window price_data c' = []"
    by (auto simp add: crypto_window_def filter_empty_conv)
  with a show "get_crypto_friday_data price_data c' = []"
    by (simp add: get_crypto_friday_data_def stride_past_end)
qed

theorem stale_series_sample_witness:
  "rows stale_frame \<noteq> [] \<and> get_friday_data stale_frame clock0 = [] \<and>
   get_crypto_friday_data [(500, 50), (600, 60)] clock0 = []"
  using stale_series_sample [of stale_frame clock0 "[(500, 50), (600, 60)]" clock0]
  by (simp add: stale_frame_def day_def clock0_def)

text \<open>
  C8. The crypto sampler returns the prices at window indices 0, 7, 14, ... in
  order, at most 12 of them: \<open>min 12 (ceil (n / 7))\<close> prices for a window of
  \<open>n\<close> points. For a window of exactly 90 points these are the 12 prices at
  indices 0, 7, ..., 77.
\<close>

theorem crypto_stride_sample:
  "get_crypto_friday_data price_data c =
     map (\<lambda>k. snd (crypto_window price_data c ! (7 * k)))
       [0 ..< min 12 ((length (crypto_window price_data c) + 6) div 7)] \<and>
   (length (crypto_window price_data c) = 90 \<longrightarrow>
      get_crypto_friday_data price_data c =
        map (\<lambda>k. snd (crypto_window price_data c ! (7 * k))) [0 ..< 12])"
proof
  show g: "get_crypto_friday_data price_data c =
     map (\<lambda>k. snd (crypto_window price_data c ! (7 * k)))
       [0 ..< min 12 ((length (crypto_window price_data c) + 6) div 7)]"
    by (rule crypto_sample_closed)
  show "length (crypto_window price_data c) = 90 \<longrightarrow>
      get_crypto_friday_data price_data c =
        map (\<lambda>k. snd (crypto_window price_data c ! (7 * k))) [0 ..< 12]"
  proof
    assume l: "length (crypto_window price_data c) = 90"
    have "min 12 ((length (crypto_window price_data c) + 6) div 7) = 12"
      unfolding l by simp
    with g show "get_crypto_friday_data price_data c =
        map (\<lambda>k. snd (crypto_window price_data c ! (7 * k))) [0 ..< 12]"
      by simp
  qed
qed

theorem crypto_stride_sample_witness:
  "length hundred_days = 100 \<and> length (crypto_window hundred_days clock0) = 90 \<and>
   get_crypto_friday_data hundred_days clock0 = [10, 17, 24, 31, 38, 45, 52, 59, 66, 73, 80, 87]"
proof -
  have l: "length (crypto_window hundred_days clock0) = 90"
    by (simp add: hundred_days_window)
  have "get_crypto_friday_data hundred_days clock0 =
      map (\<lambda>k. snd (crypto_window hundred_days clock0 ! (7 * k))) [0 ..< 12]"
    using crypto_stride_sample [of hundred_days clock0] l by simp
  also have "\<dots> = [10, 17, 24, 31, 38, 45, 52, 59, 66, 73, 80, 87]"
    unfolding upt_12 by (simp add: hundred_days_window)
  finally have g: "get_crypto_friday_data hundred_days clock0 =
      [10, 17, 24, 31, 38, 45, 52, 59, 66, 73, 80, 87]" .
  have len: "length hundred_days = 100" by (simp add: hundred_days_def)
  show ?thesis using l len g by (simp only:)
qed

section \<open>The claims about the batch\<close>

lemma fetch_all_data:
  "snd (fetch_all w c tickers) = List.map_filter (\<lambda>t. snd (fetch w c t)) tickers"
  by (induction tickers) (auto simp add: List.map_filter_simps split: prod.splits option.splits)

lemma fetch_all_out:
  "fst (fetch_all w c tickers) =
     concat (map (\<lambda>t. fst (fetch w c t) @
                    (if snd (fetch w c t) = None then [FetchFailed t] else [])) tickers)"
  by (induction tickers) (auto split: prod.splits option.splits)

lemma stock_ticker: "snd (get_stock_data w c t) = Some s \<Longrightarrow> ticker s = upper t"
  by (auto simp add: get_stock_data_def split: sum.splits if_splits)

lemma crypto_ticker: "snd (get_crypto_data w c t) = Some s \<Longrightarrow> ticker s = upper t"
  by (auto simp add: get_crypto_data_def Let_def split: sum.splits option.splits)

lemma fetch_ticker: "snd (fetch w c t) = Some s \<Longrightarrow> ticker s = upper t"
  by (cases "provider_of t") (auto simp add: fetch_def stock_ticker crypto_ticker)

lemma stock_no_FetchFailed: "FetchFailed x \<notin> set (fst (get_stock_data w c t))"
  by (auto simp add: get_stock_data_def split: sum.splits if_splits)

lemma crypto_no_FetchFailed: "FetchFailed x \<notin> set (fst (get_crypto_data w c t))"
  by (auto simp add: get_crypto_data_def Let_def split: sum.splits option.splits)

lemma fetch_no_FetchFailed: "FetchFailed x \<notin> set (fst (fetch w c t))"
  by (cases "provider_of t") (simp_all add: fetch_def stock_no_FetchFailed crypto_no_FetchFailed)

lemma map_filter_ticker:
  "map ticker (List.map_filter (\<lambda>t. snd (fetch w c t)) tickers) =
     map upper (filter (\<lambda>t. snd (fetch w c t) \<noteq> None) tickers)"
  by (induction tickers) (auto simp add: List.map_filter_simps fetch_ticker split: option.splits)

lemma fetch_all_FetchFailed:
  "FetchFailed t \<in> set (fst (fetch_all w c tickers)) \<longleftrightarrow>
     t \<in> set tickers \<and> snd (fetch w c t) = None"
  unfolding fetch_all_out using fetch_no_FetchFailed [of t w c] by auto

lemma upper_AAPL: "upper ''AAPL'' = ''AAPL''"
  by code_simp

lemma fetch_AAPL:
  "fetch zero_price_world clock0 ''AAPL'' = ([StockError ''AAPL'' ProviderError], None)"
  by (simp add: fetch_def provider_of_def upper_AAPL crypto_tickers_def get_stock_data_def
      zero_price_world_def)

lemma fetch_BTC:
  "fetch zero_price_world clock0 ''BTC'' = get_crypto_data zero_price_world clock0 ''BTC''"
  by (simp add: fetch_def provider_of_def upper_BTC crypto_tickers_def)

lemma upper_hBar: "upper ''hBar'' = ''HBAR''"
  by code_simp

text \<open>
  The fetch loop on its own does keep going: every ticker of the batch is
  fetched whatever happened to the tickers before it, the data list is exactly
  the snapshots of the tickers whose fetch succeeded, in order, and the console
  carries each ticker's own messages followed by one "Failed to fetch" line for
  exactly the tickers without data.
\<close>

lemma fetch_loop_continues:
  "snd (fetch_all w c tickers) = List.map_filter (\<lambda>t. snd (fetch w c t)) tickers \<and>
   fst (fetch_all w c tickers) =
     concat (map (\<lambda>t. fst (fetch w c t) @
                    (if snd (fetch w c t) = None then [FetchFailed t] else [])) tickers) \<and>
   (FetchFailed t \<in> set (fst (fetch_all w c tickers)) \<longleftrightarrow>
      t \<in> set tickers \<and> snd (fetch w c t) = None) \<and>
   map ticker (snd (fetch_all w c tickers)) =
     map upper (filter (\<lambda>t. snd (fetch w c t) \<noteq> None) tickers)"
proof -
  have "map ticker (snd (fetch_all w c tickers)) =
     map upper (filter (\<lambda>t. snd (fetch w c t) \<noteq> None) tickers)"
    unfolding fetch_all_data by (rule map_filter_ticker)
  then show ?thesis
    using fetch_all_data [of w c tickers] fetch_all_out [of w c tickers]
      fetch_all_FetchFailed [of t w c tickers]
    by blast
qed

text \<open>
  The panel stage is where one ticker can stop the others: a snapshot is drawn
  when it is \<open>printable\<close>, and only then.
\<close>

lemma format_price_iff: "format_price v = Inr v \<longleftrightarrow> v \<noteq> PyNone"
  by (cases v) (simp_all add: format_price_def)

lemma format_price_None: "format_price PyNone = Inl TypeError"
  by (simp add: format_price_def)

lemma format_change_Num: "format_change (Num x) = Inr (Num x)"
  by (simp add: format_change_def)

lemma format_change_None: "format_change PyNone = Inl TypeError"
  by (simp add: format_change_def)

lemma create_ticker_panel_iff:
  "create_ticker_panel d = (if printable d then Inr (Panel d) else Inl TypeError)"
  by (cases "current_price d"; cases "h24 (changes d)"; cases "d7 (changes d)";
      cases "d30 (changes d)"; cases "ytd (changes d)")
     (simp_all add: create_ticker_panel_def printable_def format_price_def format_change_def)

lemma make_panels_iff:
  "make_panels ds = (if list_all printable ds then Inr (map Panel ds) else Inl TypeError)"
  by (induction ds) (simp_all add: create_ticker_panel_iff)

lemma aapl_snapshot:
  "get_stock_data null_change_world clock0 ''AAPL'' =
     ([], Some \<lparr>ticker = ''AAPL'', current_price = Num 150,
                changes = \<lparr>h24 = Num 50, d7 = Num 0, d30 = Num 0, ytd = Num 50\<rparr>,
                friday_data = [80, 90, 100, 110], kind = Stock\<rparr>)"
proof -
  have ch: "calculate_changes two_year_frame 150 clock0 =
      Inr \<lparr>h24 = Num 50, d7 = Num 0, d30 = Num 0, ytd = Num 50\<rparr>"
    using calculate_changes_returns [of two_year_frame 150 clock0]
    by (simp add: two_year_frame_def day_def spec_ytd_anchor_def clock0_def np_pct_150_100)
  have fr: "get_friday_data two_year_frame clock0 = [80, 90, 100, 110]"
    by (simp add: get_friday_data_def recent_window_def window_rows_def two_year_frame_def
        day_def clock0_def tail_def)
  have r: "rows two_year_frame \<noteq> []"
    by (simp add: two_year_frame_def)
  show ?thesis
    using r by (simp add: get_stock_data_def null_change_world_def resolve_price_def
        upper_AAPL ch fr)
qed

lemma btc_null_snapshot:
  "get_crypto_data null_change_world clock0 ''BTC'' =
     ([], Some \<lparr>ticker = ''BTC'', current_price = Num 50000,
                changes = \<lparr>h24 = PyNone, d7 = Num 0, d30 = Num 0, ytd = Num 49900\<rparr>,
                friday_data = [100], kind = Crypto\<rparr>)"
proof -
  have s: "stride_loop [(20000000, 100)] 0 [] = [100]"
    by (simp add: stride_loop.simps)
  show ?thesis
    by (simp add: get_crypto_data_def null_change_world_def upper_BTC lower_USD
        crypto_mapping_def calculate_ytd_change_def clock0_def of_json_def get_or_zero_def
        get_crypto_friday_data_def crypto_window_def s)
qed

lemma fetch_null_AAPL:
  "fetch null_change_world clock0 ''AAPL'' = get_stock_data null_change_world clock0 ''AAPL''"
  by (simp add: fetch_def provider_of_def upper_AAPL crypto_tickers_def)

lemma fetch_null_BTC:
  "fetch null_change_world clock0 ''BTC'' = get_crypto_data null_change_world clock0 ''BTC''"
  by (simp add: fetch_def provider_of_def upper_BTC crypto_tickers_def)

lemma calculate_changes_no_None:
  assumes "calculate_changes h cur c = Inr ch"
  shows "h24 ch \<noteq> PyNone \<and> d7 ch \<noteq> PyNone \<and> d30 ch \<noteq> PyNone \<and> ytd ch \<noteq> PyNone"
proof (cases "rows h = []")
  case True
  with assms show ?thesis by (auto simp add: calculate_changes_empty)
next
  case False
  have n7: "length (rows h) \<noteq> 7"
    using assms calculate_changes_raises_7 [of h cur c] by auto
  have n30: "length (rows h) \<noteq> 30"
    using assms calculate_changes_raises_30 [of h cur c] by auto
  have "ch = \<lparr>h24 = (if 2 \<le> length (rows h)
             then np_pct cur (map close (rows h) ! (length (rows h) - 2)) else Num 0),
      d7 = (if 7 \<le> length (rows h)
            then np_pct cur (map close (rows h) ! (length (rows h) - 8)) else Num 0),
      d30 = (if 30 \<le> length (rows h)
             then np_pct cur (map close (rows h) ! (length (rows h) - 31)) else Num 0),
      ytd = np_pct cur (spec_ytd_anchor h c)\<rparr>"
    using assms calculate_changes_returns [OF False n7 n30, of cur c] by simp
  then show ?thesis
    by (simp add: np_pct_not_None)
qed

text \<open>
  Only the crypto path can put a None into a snapshot: every snapshot of
  \<open>get_stock_data\<close> is printable. When every snapshot of the batch is printable,
  all panels are built and handed to the row printer.
\<close>

lemma stock_snapshot_printable:
  assumes "snd (get_stock_data w c t) = Some s"
  shows "printable s"
  using assms
  by (auto simp add: get_stock_data_def printable_def dest: calculate_changes_no_None
      split: sum.splits if_splits)

lemma display_grid_printable:
  assumes "list_all printable (snd (fetch_all w c tickers))" "snd (fetch_all w c tickers) \<noteq> []"
  shows "display_grid w c max_per_row tickers =
     (fst (fetch_all w c tickers),
      print_rows max_per_row (map Panel (snd (fetch_all w c tickers))))"
proof (cases "fetch_all w c tickers")
  case (Pair out data_list)
  with assms show ?thesis
    by (simp add: display_grid_def make_panels_iff)
qed

text \<open>
  A ticker whose fetch fails does not stop the batch: with yfinance down and
  bitcoin quoted, AAPL is reported as failed and the BTC panel is printed.
\<close>

lemma fetch_failure_does_not_abort:
  "display_grid zero_price_world clock0 4 [''AAPL'', ''BTC''] =
     ([StockError ''AAPL'' ProviderError, FetchFailed ''AAPL''],
      Inr [[Panel \<lparr>ticker = ''BTC'', current_price = Num 0,
                   changes = \<lparr>h24 = Num 0, d7 = Num 0, d30 = Num 0, ytd = Num (- 100)\<rparr>,
                   friday_data = [100], kind = Crypto\<rparr>]])"
proof -
  have c: "\<And>p :: panel. chunks 4 [p] = [[p]]"
    by (simp add: chunks.simps)
  show ?thesis
    by (simp add: display_grid_def fetch_AAPL fetch_BTC btc_snapshot make_panels_iff
        printable_def print_rows_def c)
qed

text \<open>
  C9. The claim: one ticker never aborts the batch, and output is produced for
  every ticker whose data succeeded. In the batch AAPL, BTC below both fetches
  succeed; CoinGecko's null 24h change passes \<open>coin_data.get(..., 0)\<close> into the
  BTC snapshot, \<open>format_change\<close> raises TypeError on it inside
  \<open>create_ticker_panel\<close>, nothing catches it, and \<open>display_grid\<close> ends with that
  exception before any panel is printed: AAPL, whose data is sound, gets no
  output.
\<close>

theorem batch_aborts_on_null_change:
  "fetch null_change_world clock0 ''AAPL'' =
     ([], Some \<lparr>ticker = ''AAPL'', current_price = Num 150,
                changes = \<lparr>h24 = Num 50, d7 = Num 0, d30 = Num 0, ytd = Num 50\<rparr>,
                friday_data = [80, 90, 100, 110], kind = Stock\<rparr>) \<and>
   fetch null_change_world clock0 ''BTC'' =
     ([], Some \<lparr>ticker = ''BTC'', current_price = Num 50000,
                changes = \<lparr>h24 = PyNone, d7 = Num 0, d30 = Num 0, ytd = Num 49900\<rparr>,
                friday_data = [100], kind = Crypto\<rparr>) \<and>
   display_grid null_change_world clock0 4 [''AAPL'', ''BTC''] = ([], Inl TypeError)"
  by (simp add: display_grid_def fetch_null_AAPL fetch_null_BTC aapl_snapshot
      btc_null_snapshot make_panels_iff printable_def)

text \<open>
  C10. A ticker goes to the crypto fetcher exactly when its upper-cased symbol is
  one of the twelve listed symbols. HBAR, in any case, is in the id mapping of
  \<open>get_crypto_data\<close> but not in that list, and goes to the stock fetcher.
\<close>

theorem crypto_dispatch:
  "(provider_of t = Crypto \<longleftrightarrow>
      upper t \<in> set [''BTC'', ''ETH'', ''ADA'', ''DOT'', ''LINK'', ''LTC'', ''XRP'', ''DOGE'',
                      ''SHIB'', ''MATIC'', ''AVAX'', ''SOL'']) \<and>
   length crypto_tickers = 12 \<and>
   fetch w c t = (if provider_of t = Crypto then get_crypto_data w c t
                  else get_stock_data w c t) \<and>
   crypto_mapping ''HBAR'' = Some ''hedera-hashgraph'' \<and>
   (upper t = ''HBAR'' \<longrightarrow> provider_of t = Stock \<and> fetch w c t = get_stock_data w c t)"
proof -
  have a: "provider_of t = Crypto \<longleftrightarrow>
      upper t \<in> set [''BTC'', ''ETH'', ''ADA'', ''DOT'', ''LINK'', ''LTC'', ''XRP'', ''DOGE'',
                      ''SHIB'', ''MATIC'', ''AVAX'', ''SOL'']"
    by (simp add: provider_of_def crypto_tickers_def)
  have b: "length crypto_tickers = 12" by (simp add: crypto_tickers_def)
  have f: "fetch w c t = (if provider_of t = Crypto then get_crypto_data w c t
                  else get_stock_data w c t)"
    by (cases "provider_of t") (simp_all add: fetch_def)
  have m: "crypto_mapping ''HBAR'' = Some ''hedera-hashgraph''"
    by (simp add: crypto_mapping_def)
  have h: "upper t = ''HBAR'' \<longrightarrow> provider_of t = Stock"
    by (simp add: provider_of_def crypto_tickers_def)
  from h f have h': "upper t = ''HBAR'' \<longrightarrow> provider_of t = Stock \<and> fetch w c t = get_stock_data w c t"
    by auto
  show ?thesis using a b f m h' by blast
qed

theorem crypto_dispatch_witness:
  "upper ''hBar'' = ''HBAR'' \<and> provider_of ''hBar'' = Stock \<and>
   fetch zero_price_world clock0 ''hBar'' = get_stock_data zero_price_world clock0 ''hBar'' \<and>
   provider_of ''BTC'' = Crypto"
  using crypto_dispatch [of "''hBar''" zero_price_world clock0] crypto_dispatch [of "''BTC''" zero_price_world clock0]
  by (simp add: upper_hBar upper_BTC)

end
